theory Spec2Isabelle
  imports Main "HOL-Library.Finite_Map" "HOL-Library.AList" "HOL-Library.Multiset"
begin

section \<open>The secrets API of the universal gateway (pkg/api/universal/secrets.go)\<close>

text \<open>
  The development follows \<^verbatim>\<open>secrets.go\<close>: \<^verbatim>\<open>secretsValidateRequest\<close>,
  \<^verbatim>\<open>isSecretAllowed\<close>, \<^verbatim>\<open>GetSecret\<close> and \<^verbatim>\<open>GetBulkSecret\<close>.
  A Go function returning \<^verbatim>\<open>(*Response, error)\<close> returns a pair of options here
  (\<open>None\<close> is \<^verbatim>\<open>nil\<close>), so that "the response is nil whenever the error is
  not" is a property to prove and not one of the type. Logging, telemetry and the call
  of the backend are effects: every function returns the list of events it caused, in
  order.
\<close>

subsection \<open>Data\<close>

type_synonym secret = "string \<rightharpoonup> string"
  \<comment> \<open>\<^verbatim>\<open>map[string]string\<close>: the sub-key mapping of one secret; never iterated here\<close>

text \<open>
  Modelled from the spec: the type \<^verbatim>\<open>config.SecretsScope\<close> (package
  \<^verbatim>\<open>pkg/config\<close>) is declared outside the files at hand. Section 3 of the
  specification gives \<open>defaultAccess \<in> {Allow, Deny}\<close>, \<open>allowedKeys\<close> and
  \<open>deniedKeys\<close>; the field names are the ones \<^verbatim>\<open>secrets.go\<close> and its tests use.
\<close>

datatype Access = AllowAccess | DenyAccess

record SecretsScope =
  DefaultAccess :: Access
  ScopeStoreName :: string
  AllowedSecrets :: "string list"
  DeniedSecrets :: "string list"

text \<open>
  Modelled from the spec: the reasons of an access decision (section 3,
  \<open>AccessDecision\<close>). \<open>NoConfiguration\<close> is never produced by the scope's own method;
  it names the branch of \<^verbatim>\<open>isSecretAllowed\<close> taken when the store has no scope.
\<close>

datatype Reason =
  DeniedListMatch | NotInAllowedList | AllowedListMatch | DefaultDeny | DefaultAllow
  | NoConfiguration

text \<open>
  Modelled from the spec: the method \<^verbatim>\<open>SecretsScope.IsSecretAllowedWithReason\<close>
  (package \<^verbatim>\<open>pkg/config\<close>) is missing from the files at hand; only its caller and
  its tests are present. The definition follows rules 2 to 4 of section 4.1, first match
  wins (rule 1, no configuration, is in \<^verbatim>\<open>isSecretAllowed\<close>).
\<close>

definition IsSecretAllowedWithReason :: "SecretsScope \<Rightarrow> string \<Rightarrow> bool \<times> Reason" where
  "IsSecretAllowedWithReason c key =
     (if key \<in> set (DeniedSecrets c) then (False, DeniedListMatch)
      else if AllowedSecrets c \<noteq> [] then
        (if key \<in> set (AllowedSecrets c) then (True, AllowedListMatch)
         else (False, NotInAllowedList))
      else if DefaultAccess c = DenyAccess then (False, DefaultDeny)
      else (True, DefaultAllow))"

text \<open>The errors of package \<^verbatim>\<open>messages\<close> that the secrets API returns, with the
  arguments of \<^verbatim>\<open>WithFormat\<close>.\<close>

datatype APIError =
    ErrSecretStoreNotConfigured
  | ErrSecretStoreNotFound string
  | ErrSecretPermissionDenied string string
  | ErrSecretGet string string string
  | ErrBulkSecretGet string string

text \<open>Requests and responses of \<^verbatim>\<open>runtimev1pb\<close> (read through their getters) and of
  \<^verbatim>\<open>secretstores\<close>.\<close>

record GetSecretRequest =
  StoreName :: string
  Key :: string
  Metadata :: "string \<rightharpoonup> string"

record GetSecretResponse =
  Data :: "string \<rightharpoonup> string"

record GetBulkSecretRequest =
  BulkStoreName :: string
  BulkMetadata :: "string \<rightharpoonup> string"

record SecretResponse =
  Secrets :: secret

record GetBulkSecretResponse =
  BulkData :: "string \<rightharpoonup> SecretResponse"

record StoreGetSecretRequest =
  Name :: string
  ReqMetadata :: "string \<rightharpoonup> string"

record StoreGetSecretResponse =
  StoreData :: "string \<rightharpoonup> string"

record StoreBulkGetSecretRequest =
  BulkReqMetadata :: "string \<rightharpoonup> string"

text \<open>
  The data of a bulk result is a Go map that \<^verbatim>\<open>GetBulkSecret\<close> ranges over. It is an
  association list (keys distinct in a well-formed map) whose order stands for the order
  in which the runtime happens to yield the entries; \<open>None\<close> is the \<^verbatim>\<open>nil\<close> map.
\<close>

record StoreBulkGetSecretResponse =
  StoreBulkData :: "(string \<times> secret) list option"

text \<open>
  A secret store as the gateway sees it: the outcome of
  \<^verbatim>\<open>policyRunner(func ... component.GetSecret(ctx, req))\<close>, that is the response
  pointer and the error the resiliency runner hands back after its retries and timeouts.
  Backend and runner are external, so every outcome is admitted.
\<close>

record SecretStore =
  RunGetSecret :: "StoreGetSecretRequest \<Rightarrow> StoreGetSecretResponse option \<times> string option"
  RunBulkGetSecret ::
    "StoreBulkGetSecretRequest \<Rightarrow> StoreBulkGetSecretResponse option \<times> string option"

text \<open>
  The component store (package \<^verbatim>\<open>compstore\<close>, declared outside the files at hand) is
  taken as two finite maps by store name, the registered secret stores and the scopes,
  read through the three accessors \<^verbatim>\<open>secrets.go\<close> calls: the number of registered
  stores and the two lookups (section 6 of the specification: \<open>countRegisteredStores\<close>,
  \<open>lookup\<close>, \<open>scopeConfig\<close>).
\<close>

record ComponentStore =
  secretStores :: "(string, SecretStore) fmap"
  secretsConfigurations :: "(string, SecretsScope) fmap"

definition SecretStoresLen :: "ComponentStore \<Rightarrow> nat" where
  "SecretStoresLen cs = fcard (fmdom (secretStores cs))"

definition GetSecretStore :: "ComponentStore \<Rightarrow> string \<Rightarrow> SecretStore option" where
  "GetSecretStore cs name = fmlookup (secretStores cs) name"

definition GetSecretsConfiguration :: "ComponentStore \<Rightarrow> string \<Rightarrow> SecretsScope option" where
  "GetSecretsConfiguration cs name = fmlookup (secretsConfigurations cs) name"

record Universal =
  compStore :: ComponentStore

subsection \<open>Events\<close>

datatype Operation = Get | BulkGet

datatype LogArg =
    S string
  | SL "string list"
  | A Access
  | R Reason
  | KR "(string \<times> Reason) list"

text \<open>
  \<open>Infof\<close> and \<open>Debugf\<close> carry the format string and its arguments; \<open>Debug\<close> carries
  the error logged. \<open>PolicyRunGet\<close> and \<open>PolicyRunBulkGet\<close> mark the call of the backend
  through the resiliency runner, \<open>SecretInvoked\<close> is the telemetry record of that call.
\<close>

datatype Event =
    Infof string "LogArg list"
  | Debugf string "LogArg list"
  | Debug APIError
  | PolicyRunGet string StoreGetSecretRequest
  | PolicyRunBulkGet string StoreBulkGetSecretRequest
  | SecretInvoked string Operation bool

definition fmtDenied :: string where
  "fmtDenied = ''Secret access denied. Key: %s, Store: %s, Reason: %s, DefaultAccess: %s, AllowedSecrets: %v, DeniedSecrets: %v''"

definition fmtDeniedNoConfig :: string where
  "fmtDeniedNoConfig = ''Secret access denied. Key: %s, Store: %s, No scoping configuration found''"

definition fmtNoConfig :: string where
  "fmtNoConfig = ''No secret scoping configuration found for store %s, defaulting to allow access for key %s''"

definition fmtSomeDenied :: string where
  "fmtSomeDenied = ''Some secrets were denied access. Store: %s, DefaultAccess: %s, Denied keys with reasons: %v''"

definition fmtSomeDeniedNoConfig :: string where
  "fmtSomeDeniedNoConfig = ''Some secrets were denied access. Store: %s, No scoping configuration found. Denied keys: %v''"

definition deniedEvent :: "string \<Rightarrow> string \<Rightarrow> Reason \<Rightarrow> SecretsScope \<Rightarrow> Event" where
  "deniedEvent key storeName reason config =
     Infof fmtDenied [S key, S storeName, R reason, A (DefaultAccess config),
                      SL (AllowedSecrets config), SL (DeniedSecrets config)]"

subsection \<open>Store resolution and access evaluation\<close>

definition secretsValidateRequest ::
  "Universal \<Rightarrow> string \<Rightarrow> (APIError + SecretStore) \<times> Event list" where
  "secretsValidateRequest a componentName =
     (if SecretStoresLen (compStore a) = 0 then
        (Inl ErrSecretStoreNotConfigured, [Debug ErrSecretStoreNotConfigured])
      else
        (case GetSecretStore (compStore a) componentName of
           None \<Rightarrow>
             (Inl (ErrSecretStoreNotFound componentName),
              [Debug (ErrSecretStoreNotFound componentName)])
         | Some component \<Rightarrow> (Inr component, [])))"

definition isSecretAllowed :: "Universal \<Rightarrow> string \<Rightarrow> string \<Rightarrow> bool \<times> Event list" where
  "isSecretAllowed a storeName key =
     (case GetSecretsConfiguration (compStore a) storeName of
        Some config \<Rightarrow>
          (case IsSecretAllowedWithReason config key of
             (allowed, reason) \<Rightarrow>
               (allowed, if \<not> allowed then [deniedEvent key storeName reason config] else []))
      | None \<Rightarrow> (True, [Debugf fmtNoConfig [S storeName, S key]]))"

subsection \<open>The single-secret gateway\<close>

definition GetSecret ::
  "Universal \<Rightarrow> GetSecretRequest \<Rightarrow>
     (GetSecretResponse option \<times> APIError option) \<times> Event list" where
  "GetSecret a inp =
     (let response = None in
      case secretsValidateRequest a (StoreName inp) of
        (Inl err, ev1) \<Rightarrow> ((response, Some err), ev1)
      | (Inr component, ev1) \<Rightarrow>
          (case isSecretAllowed a (StoreName inp) (Key inp) of
             (False, ev2) \<Rightarrow>
               (let err = ErrSecretPermissionDenied (Key inp) (StoreName inp);
                    ev3 = (case GetSecretsConfiguration (compStore a) (StoreName inp) of
                             Some config \<Rightarrow>
                               [deniedEvent (Key inp) (StoreName inp)
                                  (snd (IsSecretAllowedWithReason config (Key inp))) config]
                           | None \<Rightarrow>
                               [Infof fmtDeniedNoConfig [S (Key inp), S (StoreName inp)]])
                in ((response, Some err), ev1 @ ev2 @ ev3))
           | (True, ev2) \<Rightarrow>
               (let req = \<lparr>Name = Key inp, ReqMetadata = Metadata inp\<rparr>;
                    ev3 = [PolicyRunGet (StoreName inp) req]
                in case RunGetSecret component req of
                     (getResponse, Some m) \<Rightarrow>
                       (let err = ErrSecretGet (Name req) (StoreName inp) m
                        in ((response, Some err),
                            ev1 @ ev2 @ ev3 @
                            [SecretInvoked (StoreName inp) Get False, Debug err]))
                   | (getResponse, None) \<Rightarrow>
                       ((case getResponse of
                           Some r \<Rightarrow> Some \<lparr>Data = StoreData r\<rparr>
                         | None \<Rightarrow> response,
                         None),
                        ev1 @ ev2 @ ev3 @ [SecretInvoked (StoreName inp) Get True]))))"

subsection \<open>The bulk gateway\<close>

text \<open>The variables of the filtering loop of \<^verbatim>\<open>GetBulkSecret\<close>, and what it logs.
  \<open>filteredSecrets\<close> is ranged over afterwards, so it is an association list too; an
  entry of \<open>deniedSecretReasons\<close> stands for \<^verbatim>\<open>fmt.Sprintf("%s: %s", key, reason)\<close>.\<close>

record BulkVars =
  filteredSecrets :: "(string \<times> secret) list"
  deniedSecrets :: "string list"
  deniedSecretReasons :: "(string \<times> Reason) list"
  logged :: "Event list"

definition bulkInit :: BulkVars where
  "bulkInit = \<lparr>filteredSecrets = [], deniedSecrets = [], deniedSecretReasons = [],
                logged = []\<rparr>"

definition bulkStep :: "Universal \<Rightarrow> string \<Rightarrow> string \<times> secret \<Rightarrow> BulkVars \<Rightarrow> BulkVars" where
  "bulkStep a storeName kv s =
     (case kv of (key, v) \<Rightarrow>
        (case isSecretAllowed a storeName key of
           (True, ev) \<Rightarrow>
             s\<lparr>filteredSecrets := AList.update key v (filteredSecrets s),
               logged := logged s @ ev\<rparr>
         | (False, ev) \<Rightarrow>
             s\<lparr>deniedSecrets := deniedSecrets s @ [key],
               deniedSecretReasons :=
                 (case GetSecretsConfiguration (compStore a) storeName of
                    Some config \<Rightarrow>
                      deniedSecretReasons s @
                        [(key, snd (IsSecretAllowedWithReason config key))]
                  | None \<Rightarrow> deniedSecretReasons s),
               logged := logged s @ ev @ [Debug (ErrSecretPermissionDenied key storeName)]\<rparr>))"

definition rangeOver :: "('k \<times> 'v) list option \<Rightarrow> ('k \<times> 'v) list" where
  \<comment> \<open>ranging over a \<^verbatim>\<open>nil\<close> map runs the body zero times\<close>
  "rangeOver d = (case d of None \<Rightarrow> [] | Some kvs \<Rightarrow> kvs)"

definition bulkFilter :: "Universal \<Rightarrow> string \<Rightarrow> (string \<times> secret) list option \<Rightarrow> BulkVars" where
  "bulkFilter a storeName d = fold (bulkStep a storeName) (rangeOver d) bulkInit"

definition bulkAudit :: "Universal \<Rightarrow> string \<Rightarrow> BulkVars \<Rightarrow> Event list" where
  "bulkAudit a storeName s =
     (if length (deniedSecrets s) > 0 then
        (case GetSecretsConfiguration (compStore a) storeName of
           Some config \<Rightarrow>
             [Infof fmtSomeDenied
                [S storeName, A (DefaultAccess config), KR (deniedSecretReasons s)]]
         | None \<Rightarrow> [Infof fmtSomeDeniedNoConfig [S storeName, SL (deniedSecrets s)]])
      else [])"

definition bulkResponse :: "(string \<times> secret) list \<Rightarrow> GetBulkSecretResponse" where
  "bulkResponse fs =
     \<lparr>BulkData = fold (\<lambda>(key, v) m. m(key \<mapsto> \<lparr>Secrets = v\<rparr>)) fs Map.empty\<rparr>"

definition GetBulkSecret ::
  "Universal \<Rightarrow> GetBulkSecretRequest \<Rightarrow>
     (GetBulkSecretResponse option \<times> APIError option) \<times> Event list" where
  "GetBulkSecret a inp =
     (let response = None in
      case secretsValidateRequest a (BulkStoreName inp) of
        (Inl err, ev1) \<Rightarrow> ((response, Some err), ev1)
      | (Inr component, ev1) \<Rightarrow>
          (let req = \<lparr>BulkReqMetadata = BulkMetadata inp\<rparr>;
               ev2 = [PolicyRunBulkGet (BulkStoreName inp) req]
           in case RunBulkGetSecret component req of
                (getResponse, Some m) \<Rightarrow>
                  (let err = ErrBulkSecretGet (BulkStoreName inp) m
                   in ((response, Some err),
                       ev1 @ ev2 @ [SecretInvoked (BulkStoreName inp) BulkGet False, Debug err]))
              | (None, None) \<Rightarrow>
                  ((response, None),
                   ev1 @ ev2 @ [SecretInvoked (BulkStoreName inp) BulkGet True])
              | (Some r, None) \<Rightarrow>
                  (let s = bulkFilter a (BulkStoreName inp) (StoreBulkData r);
                       ev3 = bulkAudit a (BulkStoreName inp) s
                   in ((case StoreBulkData r of
                          Some d \<Rightarrow> Some (bulkResponse (filteredSecrets s))
                        | None \<Rightarrow> response,
                        None),
                       ev1 @ ev2 @ [SecretInvoked (BulkStoreName inp) BulkGet True]
                         @ logged s @ ev3))))"

subsection \<open>Configurations of the tests\<close>

text \<open>
  The stores, scopes and requests of the tests of the secrets API
  (\<^verbatim>\<open>TestGetBulkSecretEnhancedLogging\<close>, \<^verbatim>\<open>TestGetSecretEnhancedLogging\<close>,
  \<^verbatim>\<open>TestSecretStoreNotConfigured\<close>), under a runner that makes one attempt.
  \<open>customSecretStore\<close> is the tests' \<^verbatim>\<open>CustomSecretStore\<close>: its bulk fetch returns the
  field \<^verbatim>\<open>bulkSecrets\<close> (a map, possibly \<^verbatim>\<open>nil\<close>) and never fails; its single fetch
  behaves as the tests observe the fake store to behave (\<open>good-key\<close> yields
  \<open>life is good\<close>, \<open>error-key\<close> fails; the text of that failure is immaterial).
\<close>

definition noMetadata :: "string \<rightharpoonup> string" where
  "noMetadata = Map.empty"

definition bulkSecrets :: "(string \<times> secret) list" where
  "bulkSecrets =
     [(''allowed-key'', [''allowed-key'' \<mapsto> ''allowed value'']),
      (''denied-key'', [''denied-key'' \<mapsto> ''denied value''])]"

definition customSecretStore :: "(string \<times> secret) list option \<Rightarrow> SecretStore" where
  "customSecretStore bs =
     \<lparr>RunGetSecret = (\<lambda>req.
        if Name req = ''good-key''
        then (Some \<lparr>StoreData = [''good-key'' \<mapsto> ''life is good'']\<rparr>, None)
        else if Name req = ''error-key''
        then (Some \<lparr>StoreData = Map.empty\<rparr>, Some ''error'')
        else (Some \<lparr>StoreData = Map.empty\<rparr>, None)),
      RunBulkGetSecret = (\<lambda>req. (Some \<lparr>StoreBulkData = bs\<rparr>, None))\<rparr>"

definition denyKeyScope :: SecretsScope where
  "denyKeyScope = \<lparr>DefaultAccess = AllowAccess, ScopeStoreName = ''test-store'',
                    AllowedSecrets = [], DeniedSecrets = [''denied-key'']\<rparr>"

definition denyAllScope :: SecretsScope where
  "denyAllScope = \<lparr>DefaultAccess = DenyAccess, ScopeStoreName = ''test-store'',
                    AllowedSecrets = [], DeniedSecrets = []\<rparr>"

definition apiWith :: "(string \<times> secret) list option \<Rightarrow> SecretsScope option \<Rightarrow> Universal" where
  "apiWith bs scope =
     \<lparr>compStore =
        \<lparr>secretStores = fmupd ''test-store'' (customSecretStore bs) fmempty,
         secretsConfigurations =
           (case scope of None \<Rightarrow> fmempty | Some c \<Rightarrow> fmupd ''test-store'' c fmempty)\<rparr>\<rparr>"

definition emptyAPI :: Universal where
  "emptyAPI = \<lparr>compStore = \<lparr>secretStores = fmempty, secretsConfigurations = fmempty\<rparr>\<rparr>"

definition getRequest :: "string \<Rightarrow> string \<Rightarrow> GetSecretRequest" where
  "getRequest storeName key = \<lparr>StoreName = storeName, Key = key, Metadata = noMetadata\<rparr>"

definition bulkRequest :: "string \<Rightarrow> GetBulkSecretRequest" where
  "bulkRequest storeName = \<lparr>BulkStoreName = storeName, BulkMetadata = noMetadata\<rparr>"

lemmas example_defs =
  apiWith_def emptyAPI_def customSecretStore_def denyKeyScope_def denyAllScope_def
  getRequest_def bulkRequest_def bulkSecrets_def
  GetSecretStore_def GetSecretsConfiguration_def SecretStoresLen_def

lemmas eval_defs =
  example_defs GetSecret_def GetBulkSecret_def secretsValidateRequest_def isSecretAllowed_def
  IsSecretAllowedWithReason_def bulkFilter_def bulkStep_def bulkInit_def bulkAudit_def
  bulkResponse_def rangeOver_def deniedEvent_def Let_def

section \<open>Properties\<close>

subsection \<open>Store resolution and the filtering loop\<close>

lemma SecretStoresLen_zero_iff:
  "SecretStoresLen cs = 0 \<longleftrightarrow> secretStores cs = fmempty"
  unfolding SecretStoresLen_def
  by (metis fcard_fempty fcard_0_eq fmdom_empty fmrestrict_fset_dom fmrestrict_fset_null)

lemma GetSecretStore_Some_len:
  "GetSecretStore cs name = Some c \<Longrightarrow> SecretStoresLen cs \<noteq> 0"
  unfolding SecretStoresLen_zero_iff GetSecretStore_def by auto

lemma secretsValidateRequest_resolved:
  "GetSecretStore (compStore a) name = Some c \<Longrightarrow> secretsValidateRequest a name = (Inr c, [])"
  using GetSecretStore_Some_len [of "compStore a" name c]
  by (simp add: secretsValidateRequest_def)

lemma secretsValidateRequest_cases:
  "secretsValidateRequest a name = (Inl ErrSecretStoreNotConfigured, [Debug ErrSecretStoreNotConfigured])
   \<or> secretsValidateRequest a name = (Inl (ErrSecretStoreNotFound name), [Debug (ErrSecretStoreNotFound name)])
   \<or> (\<exists>c. GetSecretStore (compStore a) name = Some c \<and> secretsValidateRequest a name = (Inr c, []))"
  by (auto simp add: secretsValidateRequest_def split: option.splits)

lemma bulkStep_filtered:
  "map_of (filteredSecrets (bulkStep a st (k, v) s)) =
     (if fst (isSecretAllowed a st k) then (map_of (filteredSecrets s))(k \<mapsto> v)
      else map_of (filteredSecrets s))"
  by (auto simp add: bulkStep_def update_conv' split: prod.splits bool.splits)

lemma bulkStep_denied:
  "deniedSecrets (bulkStep a st (k, v) s) =
     (if fst (isSecretAllowed a st k) then deniedSecrets s else deniedSecrets s @ [k])"
  by (auto simp add: bulkStep_def split: prod.splits bool.splits)

lemma bulkStep_distinct:
  "distinct (map fst (filteredSecrets s)) \<Longrightarrow>
   distinct (map fst (filteredSecrets (bulkStep a st kv s)))"
  by (auto simp add: bulkStep_def distinct_update split: prod.splits bool.splits)

lemma fold_bulkStep_distinct:
  "distinct (map fst (filteredSecrets s)) \<Longrightarrow>
   distinct (map fst (filteredSecrets (fold (bulkStep a st) kvs s)))"
  by (induction kvs arbitrary: s) (simp_all add: bulkStep_distinct)

lemma fold_bulkStep_filtered:
  "map_of (filteredSecrets (fold (bulkStep a st) kvs s)) =
     map_of (filteredSecrets s) ++
       map_of (rev (filter (\<lambda>kv. fst (isSecretAllowed a st (fst kv))) kvs))"
proof (induction kvs arbitrary: s)
  case Nil
  show ?case by simp
next
  case (Cons kv kvs)
  obtain k v where kv: "kv = (k, v)" by (cases kv)
  show ?case
    by (simp add: Cons.IH kv bulkStep_filtered map_add_upd_left)
qed

lemma fold_bulkStep_denied:
  "deniedSecrets (fold (bulkStep a st) kvs s) =
     deniedSecrets s @ filter (\<lambda>k. \<not> fst (isSecretAllowed a st k)) (map fst kvs)"
proof (induction kvs arbitrary: s)
  case Nil
  show ?case by simp
next
  case (Cons kv kvs)
  obtain k v where kv: "kv = (k, v)" by (cases kv)
  show ?case by (simp add: Cons.IH kv bulkStep_denied)
qed


lemma bulkStep_reasons:
  "deniedSecretReasons (bulkStep a st (k, v) s) =
     (if fst (isSecretAllowed a st k) then deniedSecretReasons s
      else case GetSecretsConfiguration (compStore a) st of
             Some config \<Rightarrow> deniedSecretReasons s @ [(k, snd (IsSecretAllowedWithReason config k))]
           | None \<Rightarrow> deniedSecretReasons s)"
  by (auto simp add: bulkStep_def split: prod.splits bool.splits)

lemma bulkStep_logged:
  "logged (bulkStep a st (k, v) s) =
     logged s @ snd (isSecretAllowed a st k) @
       (if fst (isSecretAllowed a st k) then [] else [Debug (ErrSecretPermissionDenied k st)])"
  by (auto simp add: bulkStep_def split: prod.splits bool.splits)

lemma fold_bulkStep_logged:
  "e \<in> set (logged (fold (bulkStep a st) kvs s)) \<Longrightarrow>
     e \<in> set (logged s) \<or>
     (\<exists>k. e \<in> set (snd (isSecretAllowed a st k)) \<or> e = Debug (ErrSecretPermissionDenied k st))"
proof (induction kvs arbitrary: s)
  case Nil
  then show ?case by simp
next
  case (Cons kv kvs)
  obtain k v where kv: "kv = (k, v)" by (cases kv)
  from Cons.prems have "e \<in> set (logged (fold (bulkStep a st) kvs (bulkStep a st (k, v) s)))"
    by (simp add: kv)
  from Cons.IH [OF this] show ?case
    by (auto simp add: bulkStep_logged split: if_splits)
qed

lemma map_of_rev_distinct:
  "distinct (map fst xs) \<Longrightarrow> map_of (rev xs) = map_of xs"
  by (subst map_of_inject_set) (simp_all add: rev_map [symmetric])

lemma bulkFilter_filtered:
  assumes "distinct (map fst kvs)"
  shows "map_of (filteredSecrets (bulkFilter a st (Some kvs))) k =
           (if fst (isSecretAllowed a st k) then map_of kvs k else None)"
proof -
  let ?P = "\<lambda>k. fst (isSecretAllowed a st k)"
  have d: "distinct (map fst (filter (\<lambda>kv. ?P (fst kv)) kvs))"
    using assms by (simp add: distinct_map_filter)
  have "map_of (filteredSecrets (bulkFilter a st (Some kvs))) =
          map_of (filter (\<lambda>kv. ?P (fst kv)) kvs)"
    by (simp add: bulkFilter_def rangeOver_def bulkInit_def fold_bulkStep_filtered
        map_of_rev_distinct [OF d])
  then show ?thesis
    using map_of_filter [where P = ?P and xs = kvs]
    by (simp add: restrict_map_def)
qed

lemma bulkFilter_distinct:
  "distinct (map fst (filteredSecrets (bulkFilter a st d)))"
  by (simp add: bulkFilter_def fold_bulkStep_distinct bulkInit_def)

lemma bulkFilter_denied:
  "deniedSecrets (bulkFilter a st d) =
     filter (\<lambda>k. \<not> fst (isSecretAllowed a st k)) (map fst (rangeOver d))"
  by (simp add: bulkFilter_def fold_bulkStep_denied bulkInit_def)

lemma fold_upd_lookup:
  "fold (\<lambda>(key, v) m. m(key \<mapsto> g v)) fs m k =
     (case map_of (rev fs) k of None \<Rightarrow> m k | Some v \<Rightarrow> Some (g v))"
proof (induction fs arbitrary: m)
  case Nil
  show ?case by simp
next
  case (Cons kv fs)
  obtain k' v' where kv: "kv = (k', v')" by (cases kv)
  let ?f = "\<lambda>(key, v) m. m(key \<mapsto> g v)"
  have "fold ?f (kv # fs) m k = fold ?f fs (m(k' \<mapsto> g v')) k"
    by (simp add: kv)
  also have "\<dots> = (case map_of (rev fs) k of None \<Rightarrow> (m(k' \<mapsto> g v')) k
                      | Some v \<Rightarrow> Some (g v))"
    by (rule Cons.IH)
  also have "\<dots> = (case map_of (rev (kv # fs)) k of None \<Rightarrow> m k | Some v \<Rightarrow> Some (g v))"
    by (simp add: kv map_add_def split: option.splits)
  finally show ?case .
qed

lemma bulkResponse_lookup:
  "distinct (map fst fs) \<Longrightarrow>
   BulkData (bulkResponse fs) k = map_option (\<lambda>v. \<lparr>Secrets = v\<rparr>) (map_of fs k)"
  by (simp add: bulkResponse_def fold_upd_lookup map_of_rev_distinct split: option.splits)

lemma bulkResponse_filter:
  assumes "distinct (map fst kvs)"
  shows "BulkData (bulkResponse (filteredSecrets (bulkFilter a st (Some kvs)))) k =
           (if fst (isSecretAllowed a st k)
            then map_option (\<lambda>v. \<lparr>Secrets = v\<rparr>) (map_of kvs k) else None)"
  by (simp add: bulkResponse_lookup [OF bulkFilter_distinct] bulkFilter_filtered [OF assms])

lemma GetBulkSecret_success:
  assumes "GetSecretStore (compStore a) (BulkStoreName inp) = Some component"
    and "RunBulkGetSecret component \<lparr>BulkReqMetadata = BulkMetadata inp\<rparr> = (Some r, None)"
  shows "fst (GetBulkSecret a inp) =
           (case StoreBulkData r of
              Some d \<Rightarrow> Some (bulkResponse (filteredSecrets
                                 (bulkFilter a (BulkStoreName inp) (StoreBulkData r))))
            | None \<Rightarrow> None, None)"
  by (simp add: GetBulkSecret_def secretsValidateRequest_resolved [OF assms(1)] assms(2) Let_def)


text \<open>The cases of \<^verbatim>\<open>TestIsSecretAllowedWithReason\<close>: the evaluator modelled from
  section 4.1 gives the results the test expects.\<close>

lemma IsSecretAllowedWithReason_tests:
  "IsSecretAllowedWithReason
     \<lparr>DefaultAccess = AllowAccess, ScopeStoreName = ''store1'', AllowedSecrets = [],
      DeniedSecrets = []\<rparr> ''allowed-key'' = (True, DefaultAllow)"
  "IsSecretAllowedWithReason
     \<lparr>DefaultAccess = DenyAccess, ScopeStoreName = ''store2'', AllowedSecrets = [],
      DeniedSecrets = []\<rparr> ''random-key'' = (False, DefaultDeny)"
  "IsSecretAllowedWithReason
     \<lparr>DefaultAccess = DenyAccess, ScopeStoreName = ''store3'',
      AllowedSecrets = [''specific-key''], DeniedSecrets = []\<rparr> ''specific-key''
     = (True, AllowedListMatch)"
  "IsSecretAllowedWithReason
     \<lparr>DefaultAccess = AllowAccess, ScopeStoreName = ''store4'',
      AllowedSecrets = [''specific-key''], DeniedSecrets = []\<rparr> ''random-key''
     = (False, NotInAllowedList)"
  "IsSecretAllowedWithReason
     \<lparr>DefaultAccess = AllowAccess, ScopeStoreName = ''store5'', AllowedSecrets = [],
      DeniedSecrets = [''denied-key'']\<rparr> ''denied-key'' = (False, DeniedListMatch)"
  by (simp_all add: IsSecretAllowedWithReason_def)

subsection \<open>The claims\<close>

text \<open>
  Claim C1. When a scope is registered for the store, the decision of
  \<^verbatim>\<open>isSecretAllowed\<close> follows the precedence of section 4.1: a key of
  \<open>DeniedSecrets\<close> is denied whatever the allow list and the default access say; for any
  other key a non-empty \<open>AllowedSecrets\<close> decides alone (allowed exactly when listed);
  \<open>DefaultAccess\<close> decides only when \<open>AllowedSecrets\<close> is empty. The evaluator is the
  one modelled from section 4.1.
\<close>

theorem isSecretAllowed_precedence:
  assumes "GetSecretsConfiguration (compStore a) storeName = Some c"
  shows "fst (isSecretAllowed a storeName key) =
           (if key \<in> set (DeniedSecrets c) then False
            else if AllowedSecrets c \<noteq> [] then key \<in> set (AllowedSecrets c)
            else DefaultAccess c = AllowAccess)"
  using assms
  by (cases "DefaultAccess c") (simp_all add: isSecretAllowed_def IsSecretAllowedWithReason_def)

theorem isSecretAllowed_precedence_witness:
  "GetSecretsConfiguration (compStore (apiWith (Some bulkSecrets) (Some denyKeyScope))) ''test-store''
     = Some denyKeyScope
   \<and> \<not> fst (isSecretAllowed (apiWith (Some bulkSecrets) (Some denyKeyScope)) ''test-store'' ''denied-key'')
   \<and> fst (isSecretAllowed (apiWith (Some bulkSecrets) (Some denyKeyScope)) ''test-store'' ''allowed-key'')"
proof -
  have h: "GetSecretsConfiguration (compStore (apiWith (Some bulkSecrets) (Some denyKeyScope)))
             ''test-store'' = Some denyKeyScope"
    by (simp add: example_defs)
  show ?thesis
    using h isSecretAllowed_precedence [OF h, of "''denied-key''"]
      isSecretAllowed_precedence [OF h, of "''allowed-key''"]
    by (simp add: denyKeyScope_def)
qed

text \<open>
  Claim C2. When the store resolves and the backend's bulk call succeeds with a data map,
  \<^verbatim>\<open>GetBulkSecret\<close> returns a response and no error, and the response holds
  exactly the allowed keys: a key the evaluator denies is absent, even though the backend
  returned a value for it, and a key it allows is present with the sub-key mapping the
  backend returned, unchanged.
\<close>

theorem GetBulkSecret_allowed_partition:
  assumes "GetSecretStore (compStore a) (BulkStoreName inp) = Some component"
    and "RunBulkGetSecret component \<lparr>BulkReqMetadata = BulkMetadata inp\<rparr> = (Some r, None)"
    and "StoreBulkData r = Some kvs"
    and "distinct (map fst kvs)"
  shows "\<exists>resp. fst (GetBulkSecret a inp) = (Some resp, None) \<and>
           (\<forall>key. BulkData resp key =
              (if fst (isSecretAllowed a (BulkStoreName inp) key)
               then map_option (\<lambda>v. \<lparr>Secrets = v\<rparr>) (map_of kvs key) else None))"
  by (simp add: GetBulkSecret_success [OF assms(1,2)] assms(3) bulkResponse_filter [OF assms(4)])

theorem GetBulkSecret_allowed_partition_witness:
  "GetSecretStore (compStore (apiWith (Some bulkSecrets) (Some denyKeyScope))) ''test-store''
     = Some (customSecretStore (Some bulkSecrets))
   \<and> distinct (map fst bulkSecrets)
   \<and> (\<exists>resp. fst (GetBulkSecret (apiWith (Some bulkSecrets) (Some denyKeyScope))
                     (bulkRequest ''test-store'')) = (Some resp, None)
        \<and> BulkData resp ''denied-key'' = None
        \<and> BulkData resp ''allowed-key'' =
            Some \<lparr>Secrets = [''allowed-key'' \<mapsto> ''allowed value'']\<rparr>)"
proof -
  let ?a = "apiWith (Some bulkSecrets) (Some denyKeyScope)"
  let ?inp = "bulkRequest ''test-store''"
  have h1: "GetSecretStore (compStore ?a) (BulkStoreName ?inp)
              = Some (customSecretStore (Some bulkSecrets))"
    by (simp add: example_defs)
  have h2: "RunBulkGetSecret (customSecretStore (Some bulkSecrets))
              \<lparr>BulkReqMetadata = BulkMetadata ?inp\<rparr> =
            (Some \<lparr>StoreBulkData = Some bulkSecrets\<rparr>, None)"
    by (simp add: customSecretStore_def)
  have h3: "StoreBulkData \<lparr>StoreBulkData = Some bulkSecrets\<rparr> = Some bulkSecrets"
    by simp
  have h4: "distinct (map fst bulkSecrets)"
    by (simp add: bulkSecrets_def)
  have d: "\<not> fst (isSecretAllowed ?a ''test-store'' ''denied-key'')"
    by (simp add: example_defs isSecretAllowed_def IsSecretAllowedWithReason_def)
  have al: "fst (isSecretAllowed ?a ''test-store'' ''allowed-key'')"
    by (simp add: example_defs isSecretAllowed_def IsSecretAllowedWithReason_def)
  from GetBulkSecret_allowed_partition [OF h1 h2 h3 h4]
  obtain resp where r: "fst (GetBulkSecret ?a ?inp) = (Some resp, None)"
    and k: "\<And>key. BulkData resp key =
              (if fst (isSecretAllowed ?a (BulkStoreName ?inp) key)
               then map_option (\<lambda>v. \<lparr>Secrets = v\<rparr>) (map_of bulkSecrets key) else None)"
    by blast
  have "BulkData resp ''denied-key'' = None"
    using k [of "''denied-key''"] d by (simp add: bulkRequest_def)
  moreover have "BulkData resp ''allowed-key'' =
      Some \<lparr>Secrets = [''allowed-key'' \<mapsto> ''allowed value'']\<rparr>"
    using k [of "''allowed-key''"] al by (simp add: bulkRequest_def bulkSecrets_def)
  ultimately show ?thesis
    using h1 h4 r by (auto simp add: bulkRequest_def)
qed

lemma isSecretAllowed_denied_config:
  assumes "\<not> fst (isSecretAllowed a storeName key)"
  shows "\<exists>config reason. GetSecretsConfiguration (compStore a) storeName = Some config \<and>
           IsSecretAllowedWithReason config key = (False, reason) \<and>
           isSecretAllowed a storeName key = (False, [deniedEvent key storeName reason config])"
  using assms
  by (auto simp add: isSecretAllowed_def split: option.splits prod.splits)

text \<open>
  Claim C3. When the store resolves and the evaluator denies the key, \<^verbatim>\<open>GetSecret\<close>
  returns no response and the error \<open>ErrSecretPermissionDenied key storeName\<close>. A scope
  then exists for the store, and the events of the call are the denial record, an
  \<open>Infof\<close> line whose arguments are, in this order, the key, the store name, the reason
  of the evaluator, and the default access, the allow list and the deny list of the
  scope; it is logged once by \<^verbatim>\<open>isSecretAllowed\<close> and once more by
  \<^verbatim>\<open>GetSecret\<close>, and nothing else is: the backend is not called through the runner,
  the "no configuration found" line is not logged, and no value of a secret is part of
  an event.
\<close>

theorem GetSecret_denied:
  assumes "GetSecretStore (compStore a) (StoreName inp) = Some component"
    and "\<not> fst (isSecretAllowed a (StoreName inp) (Key inp))"
  shows "\<exists>config reason.
           GetSecretsConfiguration (compStore a) (StoreName inp) = Some config \<and>
           IsSecretAllowedWithReason config (Key inp) = (False, reason) \<and>
           GetSecret a inp =
             ((None, Some (ErrSecretPermissionDenied (Key inp) (StoreName inp))),
              [Infof 
                ''Secret access denied. Key: %s, Store: %s, Reason: %s, DefaultAccess: %s, AllowedSecrets: %v, DeniedSecrets: %v''
                 [S (Key inp), S (StoreName inp), R reason, A (DefaultAccess config),
                  SL (AllowedSecrets config), SL (DeniedSecrets config)],
               Infof 
                ''Secret access denied. Key: %s, Store: %s, Reason: %s, DefaultAccess: %s, AllowedSecrets: %v, DeniedSecrets: %v''
                 [S (Key inp), S (StoreName inp), R reason, A (DefaultAccess config),
                  SL (AllowedSecrets config), SL (DeniedSecrets config)]]) \<and>
           (\<forall>s r. PolicyRunGet s r \<notin> set (snd (GetSecret a inp))) \<and>
           (\<forall>s oper b. SecretInvoked s oper b \<notin> set (snd (GetSecret a inp)))"
proof -
  from isSecretAllowed_denied_config [OF assms(2)]
  obtain config reason where
    c: "GetSecretsConfiguration (compStore a) (StoreName inp) = Some config"
    and r: "IsSecretAllowedWithReason config (Key inp) = (False, reason)"
    and i: "isSecretAllowed a (StoreName inp) (Key inp) =
              (False, [deniedEvent (Key inp) (StoreName inp) reason config])"
    by blast
  have g: "GetSecret a inp =
             ((None, Some (ErrSecretPermissionDenied (Key inp) (StoreName inp))),
              [Infof 
                ''Secret access denied. Key: %s, Store: %s, Reason: %s, DefaultAccess: %s, AllowedSecrets: %v, DeniedSecrets: %v''
                 [S (Key inp), S (StoreName inp), R reason, A (DefaultAccess config),
                  SL (AllowedSecrets config), SL (DeniedSecrets config)],
               Infof 
                ''Secret access denied. Key: %s, Store: %s, Reason: %s, DefaultAccess: %s, AllowedSecrets: %v, DeniedSecrets: %v''
                 [S (Key inp), S (StoreName inp), R reason, A (DefaultAccess config),
                  SL (AllowedSecrets config), SL (DeniedSecrets config)]])"
    by (simp add: GetSecret_def secretsValidateRequest_resolved [OF assms(1)] i c r
        deniedEvent_def fmtDenied_def)
  have p: "\<forall>s r. PolicyRunGet s r \<notin> set (snd (GetSecret a inp))"
    by (simp add: g)
  have t: "\<forall>s oper b. SecretInvoked s oper b \<notin> set (snd (GetSecret a inp))"
    by (simp add: g)
  from c r g p t show ?thesis by blast
qed

theorem GetSecret_denied_witness:
  "GetSecretStore (compStore (apiWith (Some bulkSecrets) (Some denyAllScope))) ''test-store''
     = Some (customSecretStore (Some bulkSecrets))
   \<and> \<not> fst (isSecretAllowed (apiWith (Some bulkSecrets) (Some denyAllScope))
             ''test-store'' ''denied-key'')
   \<and> GetSecret (apiWith (Some bulkSecrets) (Some denyAllScope))
        (getRequest ''test-store'' ''denied-key'') =
       ((None, Some (ErrSecretPermissionDenied ''denied-key'' ''test-store'')),
        [Infof 
                ''Secret access denied. Key: %s, Store: %s, Reason: %s, DefaultAccess: %s, AllowedSecrets: %v, DeniedSecrets: %v''
           [S ''denied-key'', S ''test-store'', R DefaultDeny, A DenyAccess, SL [], SL []],
         Infof 
                ''Secret access denied. Key: %s, Store: %s, Reason: %s, DefaultAccess: %s, AllowedSecrets: %v, DeniedSecrets: %v''
           [S ''denied-key'', S ''test-store'', R DefaultDeny, A DenyAccess, SL [], SL []]])"
proof -
  let ?a = "apiWith (Some bulkSecrets) (Some denyAllScope)"
  let ?inp = "getRequest ''test-store'' ''denied-key''"
  have h1: "GetSecretStore (compStore ?a) (StoreName ?inp)
              = Some (customSecretStore (Some bulkSecrets))"
    by (simp add: example_defs)
  have h2: "\<not> fst (isSecretAllowed ?a (StoreName ?inp) (Key ?inp))"
    by (simp add: example_defs isSecretAllowed_def IsSecretAllowedWithReason_def)
  have c: "GetSecretsConfiguration (compStore ?a) (StoreName ?inp) = Some denyAllScope"
    by (simp add: example_defs)
  have r: "IsSecretAllowedWithReason denyAllScope (Key ?inp) = (False, DefaultDeny)"
    by (simp add: example_defs IsSecretAllowedWithReason_def)
  from GetSecret_denied [OF h1 h2] c r
  have "GetSecret ?a ?inp =
       ((None, Some (ErrSecretPermissionDenied (Key ?inp) (StoreName ?inp))),
        [Infof 
                ''Secret access denied. Key: %s, Store: %s, Reason: %s, DefaultAccess: %s, AllowedSecrets: %v, DeniedSecrets: %v''
           [S (Key ?inp), S (StoreName ?inp), R DefaultDeny, A (DefaultAccess denyAllScope),
            SL (AllowedSecrets denyAllScope), SL (DeniedSecrets denyAllScope)],
         Infof 
                ''Secret access denied. Key: %s, Store: %s, Reason: %s, DefaultAccess: %s, AllowedSecrets: %v, DeniedSecrets: %v''
           [S (Key ?inp), S (StoreName ?inp), R DefaultDeny, A (DefaultAccess denyAllScope),
            SL (AllowedSecrets denyAllScope), SL (DeniedSecrets denyAllScope)]])"
    by auto
  with h1 h2 show ?thesis by (simp add: getRequest_def denyAllScope_def)
qed

text \<open>
  Claim C4. Store resolution fails with \<open>ErrSecretStoreNotConfigured\<close> whenever no
  secret store is registered, whatever the name asked for, and so do \<^verbatim>\<open>GetSecret\<close>
  and \<^verbatim>\<open>GetBulkSecret\<close>, whatever the request. When at least one store is registered
  and none has the name asked for, resolution and both gateways fail with
  \<open>ErrSecretStoreNotFound\<close> of that name. With no store registered the name is never
  looked up, so the first error wins.
\<close>

theorem store_resolution_errors:
  "(SecretStoresLen (compStore a) = 0 \<longrightarrow>
      fst (secretsValidateRequest a name) = Inl ErrSecretStoreNotConfigured \<and>
      fst (GetSecret a inp) = (None, Some ErrSecretStoreNotConfigured) \<and>
      fst (GetBulkSecret a binp) = (None, Some ErrSecretStoreNotConfigured))
   \<and> (SecretStoresLen (compStore a) \<noteq> 0 \<and> GetSecretStore (compStore a) name = None \<longrightarrow>
      fst (secretsValidateRequest a name) = Inl (ErrSecretStoreNotFound name))
   \<and> (SecretStoresLen (compStore a) \<noteq> 0 \<and> GetSecretStore (compStore a) (StoreName inp) = None \<longrightarrow>
      fst (GetSecret a inp) = (None, Some (ErrSecretStoreNotFound (StoreName inp))))
   \<and> (SecretStoresLen (compStore a) \<noteq> 0 \<and>
        GetSecretStore (compStore a) (BulkStoreName binp) = None \<longrightarrow>
      fst (GetBulkSecret a binp) = (None, Some (ErrSecretStoreNotFound (BulkStoreName binp))))"
  by (simp add: secretsValidateRequest_def GetSecret_def GetBulkSecret_def)

theorem store_resolution_errors_witness:
  "SecretStoresLen (compStore emptyAPI) = 0
   \<and> fst (GetSecret emptyAPI (getRequest ''test-store'' ''good-key''))
       = (None, Some ErrSecretStoreNotConfigured)
   \<and> fst (GetBulkSecret emptyAPI (bulkRequest ''test-store''))
       = (None, Some ErrSecretStoreNotConfigured)
   \<and> SecretStoresLen (compStore (apiWith (Some bulkSecrets) None)) \<noteq> 0
   \<and> GetSecretStore (compStore (apiWith (Some bulkSecrets) None)) ''nonexistent'' = None
   \<and> fst (GetSecret (apiWith (Some bulkSecrets) None) (getRequest ''nonexistent'' ''key''))
       = (None, Some (ErrSecretStoreNotFound ''nonexistent''))
   \<and> fst (GetBulkSecret (apiWith (Some bulkSecrets) None) (bulkRequest ''nonexistent''))
       = (None, Some (ErrSecretStoreNotFound ''nonexistent''))"
proof -
  have h0: "SecretStoresLen (compStore emptyAPI) = 0"
    by (simp add: example_defs)
  have h1: "SecretStoresLen (compStore (apiWith (Some bulkSecrets) None)) \<noteq> 0"
    by (simp add: example_defs)
  have h2: "GetSecretStore (compStore (apiWith (Some bulkSecrets) None)) ''nonexistent'' = None"
    by (simp add: example_defs)
  show ?thesis
    using h0 h1 h2
      store_resolution_errors [of emptyAPI "''test-store''"
        "getRequest ''test-store'' ''good-key''" "bulkRequest ''test-store''"]
      store_resolution_errors [of "apiWith (Some bulkSecrets) None" "''nonexistent''"
        "getRequest ''nonexistent'' ''key''" "bulkRequest ''nonexistent''"]
    by (simp add: getRequest_def bulkRequest_def)
qed

lemma GetSecret_error_cases:
  "snd (fst (GetSecret a inp)) = Some (ErrSecretPermissionDenied k s) \<Longrightarrow>
   \<not> fst (isSecretAllowed a (StoreName inp) (Key inp))"
  using secretsValidateRequest_cases [of a "StoreName inp"]
  by (auto simp add: GetSecret_def Let_def split: prod.splits sum.splits bool.splits option.splits)

text \<open>
  Claim C5. When no scope is registered for the store, \<^verbatim>\<open>isSecretAllowed\<close> allows
  every key, logging only the debug line of the no-configuration branch. Hence
  \<^verbatim>\<open>GetSecret\<close> on such a store never fails with \<open>ErrSecretPermissionDenied\<close>, the
  filtering loop of \<^verbatim>\<open>GetBulkSecret\<close> denies no key, and a successful bulk call
  returns every entry of the backend's data.
\<close>

theorem no_configuration_allows:
  assumes "GetSecretsConfiguration (compStore a) storeName = None"
  shows "isSecretAllowed a storeName key = (True, [Debugf fmtNoConfig [S storeName, S key]])
    \<and> (StoreName inp = storeName \<longrightarrow>
         (\<forall>k s. snd (fst (GetSecret a inp)) \<noteq> Some (ErrSecretPermissionDenied k s)))
    \<and> deniedSecrets (bulkFilter a storeName d) = []
    \<and> (BulkStoreName binp = storeName \<and>
        GetSecretStore (compStore a) storeName = Some component \<and>
        RunBulkGetSecret component \<lparr>BulkReqMetadata = BulkMetadata binp\<rparr> = (Some r, None) \<and>
        StoreBulkData r = Some kvs \<and> distinct (map fst kvs) \<longrightarrow>
         (\<exists>resp. fst (GetBulkSecret a binp) = (Some resp, None) \<and>
            (\<forall>k. BulkData resp k = map_option (\<lambda>v. \<lparr>Secrets = v\<rparr>) (map_of kvs k))))"
proof -
  have al: "\<And>k. isSecretAllowed a storeName k = (True, [Debugf fmtNoConfig [S storeName, S k]])"
    using assms by (simp add: isSecretAllowed_def)
  have g: "StoreName inp = storeName \<longrightarrow>
         (\<forall>k s. snd (fst (GetSecret a inp)) \<noteq> Some (ErrSecretPermissionDenied k s))"
    using GetSecret_error_cases [of a inp] al by auto
  have dn: "deniedSecrets (bulkFilter a storeName d) = []"
    by (simp add: bulkFilter_denied al)
  have b: "BulkStoreName binp = storeName \<and>
        GetSecretStore (compStore a) storeName = Some component \<and>
        RunBulkGetSecret component \<lparr>BulkReqMetadata = BulkMetadata binp\<rparr> = (Some r, None) \<and>
        StoreBulkData r = Some kvs \<and> distinct (map fst kvs) \<longrightarrow>
         (\<exists>resp. fst (GetBulkSecret a binp) = (Some resp, None) \<and>
            (\<forall>k. BulkData resp k = map_option (\<lambda>v. \<lparr>Secrets = v\<rparr>) (map_of kvs k)))"
  proof (intro impI, elim conjE)
    assume h: "BulkStoreName binp = storeName"
      "GetSecretStore (compStore a) storeName = Some component"
      "RunBulkGetSecret component \<lparr>BulkReqMetadata = BulkMetadata binp\<rparr> = (Some r, None)"
      "StoreBulkData r = Some kvs" "distinct (map fst kvs)"
    from h(1,2) have h2: "GetSecretStore (compStore a) (BulkStoreName binp) = Some component"
      by simp
    show "\<exists>resp. fst (GetBulkSecret a binp) = (Some resp, None) \<and>
            (\<forall>k. BulkData resp k = map_option (\<lambda>v. \<lparr>Secrets = v\<rparr>) (map_of kvs k))"
      by (simp add: GetBulkSecret_success [OF h2 h(3)] h(4) h(1)
          bulkResponse_filter [OF h(5)] al)
  qed
  from al [of key] g dn b show ?thesis by blast
qed

theorem no_configuration_allows_witness:
  "GetSecretsConfiguration (compStore (apiWith (Some bulkSecrets) None)) ''test-store'' = None
   \<and> fst (isSecretAllowed (apiWith (Some bulkSecrets) None) ''test-store'' ''denied-key'')
   \<and> fst (GetSecret (apiWith (Some bulkSecrets) None) (getRequest ''test-store'' ''good-key''))
       = (Some \<lparr>Data = [''good-key'' \<mapsto> ''life is good'']\<rparr>, None)
   \<and> deniedSecrets (bulkFilter (apiWith (Some bulkSecrets) None) ''test-store''
        (Some bulkSecrets)) = []"
proof -
  have h: "GetSecretsConfiguration (compStore (apiWith (Some bulkSecrets) None)) ''test-store''
             = None"
    by (simp add: example_defs)
  have g: "fst (GetSecret (apiWith (Some bulkSecrets) None)
                  (getRequest ''test-store'' ''good-key''))
       = (Some \<lparr>Data = [''good-key'' \<mapsto> ''life is good'']\<rparr>, None)"
    by (simp add: eval_defs)
  show ?thesis
    using h g no_configuration_allows [OF h, of "''denied-key''"
        "getRequest ''test-store'' ''good-key''" "Some bulkSecrets"]
    by simp
qed

lemma bulkFilter_all_denied:
  assumes "\<forall>k \<in> fst ` set (rangeOver d). \<not> fst (isSecretAllowed a st k)"
  shows "filteredSecrets (bulkFilter a st d) = []"
proof -
  have "filter (\<lambda>kv. fst (isSecretAllowed a st (fst kv))) (rangeOver d) = []"
    using assms by (auto simp add: filter_empty_conv)
  then have "map_of (filteredSecrets (bulkFilter a st d)) = Map.empty"
    by (simp add: bulkFilter_def fold_bulkStep_filtered bulkInit_def)
  then show ?thesis by (simp only: map_of_eq_empty_iff)
qed

text \<open>
  Claim C6, as stated, fails: a backend that returns a data map with no keys (an empty
  map, not \<^verbatim>\<open>nil\<close>) gets a response that is present, with empty data.
\<close>

theorem absent_response_counterexample:
  "RunBulkGetSecret (customSecretStore (Some [])) \<lparr>BulkReqMetadata = noMetadata\<rparr>
     = (Some \<lparr>StoreBulkData = Some []\<rparr>, None)
   \<and> fst (GetBulkSecret (apiWith (Some []) None) (bulkRequest ''test-store''))
       = (Some (bulkResponse []), None)
   \<and> fst (fst (GetBulkSecret (apiWith (Some []) None) (bulkRequest ''test-store''))) \<noteq> None"
  by (simp add: eval_defs)

text \<open>
  Claim C6, amended. On a successful backend bulk call of a resolved store, the response
  of \<^verbatim>\<open>GetBulkSecret\<close> is absent exactly when the backend's response or its data map
  is \<^verbatim>\<open>nil\<close>; whenever the data map is not \<^verbatim>\<open>nil\<close> and every key in it is denied
  (also when it holds no key at all) the response is present with empty data.
\<close>

theorem GetBulkSecret_absent_iff_nil:
  assumes "GetSecretStore (compStore a) (BulkStoreName inp) = Some component"
    and "RunBulkGetSecret component \<lparr>BulkReqMetadata = BulkMetadata inp\<rparr> = (ro, None)"
  shows "(fst (GetBulkSecret a inp) = (None, None) \<longleftrightarrow>
            (case ro of None \<Rightarrow> True | Some r \<Rightarrow> StoreBulkData r = None))
     \<and> (\<forall>r kvs. ro = Some r \<and> StoreBulkData r = Some kvs \<and>
           (\<forall>k \<in> fst ` set kvs. \<not> fst (isSecretAllowed a (BulkStoreName inp) k)) \<longrightarrow>
           fst (GetBulkSecret a inp) = (Some \<lparr>BulkData = Map.empty\<rparr>, None))"
proof (cases ro)
  case None
  then show ?thesis
    using assms(2)
    by (simp add: GetBulkSecret_def secretsValidateRequest_resolved [OF assms(1)])
next
  case (Some r)
  have s: "fst (GetBulkSecret a inp) =
           (case StoreBulkData r of
              Some d \<Rightarrow> Some (bulkResponse (filteredSecrets
                                 (bulkFilter a (BulkStoreName inp) (StoreBulkData r))))
            | None \<Rightarrow> None, None)"
    using GetBulkSecret_success [OF assms(1)] assms(2) Some by simp
  have "\<And>kvs. StoreBulkData r = Some kvs \<Longrightarrow>
           \<forall>k \<in> fst ` set kvs. \<not> fst (isSecretAllowed a (BulkStoreName inp) k) \<Longrightarrow>
           fst (GetBulkSecret a inp) = (Some \<lparr>BulkData = Map.empty\<rparr>, None)"
    using bulkFilter_all_denied [of "StoreBulkData r" a "BulkStoreName inp"]
    by (simp add: s rangeOver_def bulkResponse_def)
  then show ?thesis
    using Some by (auto simp add: s split: option.splits)
qed

theorem GetBulkSecret_absent_iff_nil_witness:
  "GetSecretStore (compStore (apiWith (Some bulkSecrets) (Some denyAllScope))) ''test-store''
     = Some (customSecretStore (Some bulkSecrets))
   \<and> \<not> fst (isSecretAllowed (apiWith (Some bulkSecrets) (Some denyAllScope))
             ''test-store'' ''allowed-key'')
   \<and> \<not> fst (isSecretAllowed (apiWith (Some bulkSecrets) (Some denyAllScope))
             ''test-store'' ''denied-key'')
   \<and> fst (GetBulkSecret (apiWith (Some bulkSecrets) (Some denyAllScope))
            (bulkRequest ''test-store'')) = (Some \<lparr>BulkData = Map.empty\<rparr>, None)
   \<and> GetSecretStore (compStore (apiWith None (Some denyAllScope))) ''test-store''
       = Some (customSecretStore None)
   \<and> fst (GetBulkSecret (apiWith None (Some denyAllScope)) (bulkRequest ''test-store''))
       = (None, None)"
proof -
  let ?a = "apiWith (Some bulkSecrets) (Some denyAllScope)"
  let ?n = "apiWith None (Some denyAllScope)"
  let ?inp = "bulkRequest ''test-store''"
  have h1: "GetSecretStore (compStore ?a) (BulkStoreName ?inp)
              = Some (customSecretStore (Some bulkSecrets))"
    by (simp add: example_defs)
  have h2: "RunBulkGetSecret (customSecretStore (Some bulkSecrets))
              \<lparr>BulkReqMetadata = BulkMetadata ?inp\<rparr> =
            (Some \<lparr>StoreBulkData = Some bulkSecrets\<rparr>, None)"
    by (simp add: customSecretStore_def)
  have h3: "\<forall>k \<in> fst ` set bulkSecrets. \<not> fst (isSecretAllowed ?a (BulkStoreName ?inp) k)"
    by (simp add: example_defs isSecretAllowed_def IsSecretAllowedWithReason_def)
  have n1: "GetSecretStore (compStore ?n) (BulkStoreName ?inp) = Some (customSecretStore None)"
    by (simp add: example_defs)
  have n2: "RunBulkGetSecret (customSecretStore None)
              \<lparr>BulkReqMetadata = BulkMetadata ?inp\<rparr> =
            (Some \<lparr>StoreBulkData = None\<rparr>, None)"
    by (simp add: customSecretStore_def)
  have "fst (GetBulkSecret ?a ?inp) = (Some \<lparr>BulkData = Map.empty\<rparr>, None)"
    using GetBulkSecret_absent_iff_nil [OF h1 h2] h3 by simp
  moreover have "fst (GetBulkSecret ?n ?inp) = (None, None)"
    using GetBulkSecret_absent_iff_nil [OF n1 n2] by simp
  ultimately show ?thesis
    using h1 h3 n1 by (simp add: bulkRequest_def bulkSecrets_def)
qed

lemma isSecretAllowed_events:
  "e \<in> set (snd (isSecretAllowed a st k)) \<Longrightarrow>
     (\<exists>args. e = Infof fmtDenied args) \<or> (\<exists>args. e = Debugf fmtNoConfig args)"
  by (auto simp add: isSecretAllowed_def deniedEvent_def split: option.splits prod.splits if_splits)

lemma fmt_distinct:
  "fmtDenied \<noteq> fmtSomeDeniedNoConfig" "fmtSomeDenied \<noteq> fmtSomeDeniedNoConfig"
  by (simp_all add: fmtDenied_def fmtSomeDenied_def fmtSomeDeniedNoConfig_def)

lemma bulkFilter_logged_no_fallback:
  "Infof fmtSomeDeniedNoConfig args \<notin> set (logged (bulkFilter a st d))"
proof
  assume "Infof fmtSomeDeniedNoConfig args \<in> set (logged (bulkFilter a st d))"
  then have "Infof fmtSomeDeniedNoConfig args \<in> set (logged bulkInit) \<or>
     (\<exists>k. Infof fmtSomeDeniedNoConfig args \<in> set (snd (isSecretAllowed a st k)) \<or>
          Infof fmtSomeDeniedNoConfig args = Debug (ErrSecretPermissionDenied k st))"
    unfolding bulkFilter_def by (rule fold_bulkStep_logged)
  then show False
    using fmt_distinct(1) by (auto simp add: bulkInit_def dest!: isSecretAllowed_events)
qed

lemma no_configuration_denied:
  "GetSecretsConfiguration (compStore a) st = None \<Longrightarrow> deniedSecrets (bulkFilter a st d) = []"
  by (simp add: bulkFilter_denied isSecretAllowed_def)

lemma bulkAudit_no_fallback:
  "Infof fmtSomeDeniedNoConfig args \<notin> set (bulkAudit a st (bulkFilter a st d))"
  using fmt_distinct(2)
  by (auto simp add: bulkAudit_def no_configuration_denied split: option.splits)

text \<open>
  Claim C7. For a store without a registered scope the filtering loop of
  \<^verbatim>\<open>GetBulkSecret\<close> leaves \<open>deniedSecrets\<close> empty, and the aggregate audit step logs
  nothing. Hence the fallback record that lists denied keys without reasons ("No scoping
  configuration found. Denied keys") is never among the events of \<^verbatim>\<open>GetBulkSecret\<close>,
  for any gateway and any request.
\<close>

theorem no_configuration_no_denials:
  "(GetSecretsConfiguration (compStore a) storeName = None \<longrightarrow>
      deniedSecrets (bulkFilter a storeName d) = [] \<and>
      bulkAudit a storeName (bulkFilter a storeName d) = [])
   \<and> (\<forall>args. Infof fmtSomeDeniedNoConfig args \<notin> set (snd (GetBulkSecret a inp)))"
proof -
  have 1: "GetSecretsConfiguration (compStore a) storeName = None \<longrightarrow>
      deniedSecrets (bulkFilter a storeName d) = [] \<and>
      bulkAudit a storeName (bulkFilter a storeName d) = []"
    by (simp add: no_configuration_denied bulkAudit_def)
  have 2: "Infof fmtSomeDeniedNoConfig args \<notin> set (snd (GetBulkSecret a inp))" for args
    using secretsValidateRequest_cases [of a "BulkStoreName inp"]
      bulkFilter_logged_no_fallback [of args a "BulkStoreName inp"]
      bulkAudit_no_fallback [of args a "BulkStoreName inp"]
    by (auto simp add: GetBulkSecret_def Let_def split: prod.splits sum.splits option.splits)
  from 1 2 show ?thesis by blast
qed

theorem no_configuration_no_denials_witness:
  "GetSecretsConfiguration (compStore (apiWith (Some bulkSecrets) None)) ''test-store'' = None
   \<and> deniedSecrets (bulkFilter (apiWith (Some bulkSecrets) None) ''test-store''
        (Some bulkSecrets)) = []
   \<and> bulkAudit (apiWith (Some bulkSecrets) None) ''test-store''
        (bulkFilter (apiWith (Some bulkSecrets) None) ''test-store'' (Some bulkSecrets)) = []
   \<and> Infof fmtSomeDeniedNoConfig [S ''test-store'', SL [''denied-key'']] \<notin>
        set (snd (GetBulkSecret (apiWith (Some bulkSecrets) None) (bulkRequest ''test-store'')))"
proof -
  have h: "GetSecretsConfiguration (compStore (apiWith (Some bulkSecrets) None)) ''test-store''
             = None"
    by (simp add: example_defs)
  show ?thesis
    using h no_configuration_no_denials [of "apiWith (Some bulkSecrets) None" "''test-store''"
        "Some bulkSecrets" "bulkRequest ''test-store''"]
    by blast
qed

lemma fold_bulkStep_reasons:
  "deniedSecretReasons (fold (bulkStep a st) kvs s) =
     deniedSecretReasons s @
       (case GetSecretsConfiguration (compStore a) st of
          Some config \<Rightarrow>
            map (\<lambda>k. (k, snd (IsSecretAllowedWithReason config k)))
              (filter (\<lambda>k. \<not> fst (isSecretAllowed a st k)) (map fst kvs))
        | None \<Rightarrow> [])"
proof (induction kvs arbitrary: s)
  case Nil
  show ?case by (simp split: option.splits)
next
  case (Cons kv kvs)
  obtain k v where kv: "kv = (k, v)" by (cases kv)
  show ?case by (simp add: Cons.IH kv bulkStep_reasons split: option.splits)
qed

lemma isSecretAllowed_same_scope:
  "GetSecretsConfiguration (compStore a) st = GetSecretsConfiguration (compStore a') st' \<Longrightarrow>
   fst (isSecretAllowed a st k) = fst (isSecretAllowed a' st' k)"
  by (simp add: isSecretAllowed_def split: option.splits prod.splits)

text \<open>
  Claim C8. The partition computed by the filtering loop of \<^verbatim>\<open>GetBulkSecret\<close> is a
  function of the scope registered for the store and of the backend's entries, whatever
  the order in which the map is ranged over: for the same scope and two orderings of the
  same entries (keys distinct, as in a map), the allowed entries, the response built from
  them, the set of denied keys and the set of denied keys with reasons are the same; the
  allowed keys are the backend's keys the evaluator allows and the denied keys are the
  others.
\<close>

theorem bulk_filter_order_independent:
  assumes "GetSecretsConfiguration (compStore a) st = GetSecretsConfiguration (compStore a') st'"
    and "mset kvs = mset kvs'"
    and "distinct (map fst kvs)"
  shows "map_of (filteredSecrets (bulkFilter a st (Some kvs))) =
           map_of (filteredSecrets (bulkFilter a' st' (Some kvs')))
    \<and> bulkResponse (filteredSecrets (bulkFilter a st (Some kvs))) =
        bulkResponse (filteredSecrets (bulkFilter a' st' (Some kvs')))
    \<and> set (deniedSecrets (bulkFilter a st (Some kvs))) =
        set (deniedSecrets (bulkFilter a' st' (Some kvs')))
    \<and> set (deniedSecretReasons (bulkFilter a st (Some kvs))) =
        set (deniedSecretReasons (bulkFilter a' st' (Some kvs')))
    \<and> dom (map_of (filteredSecrets (bulkFilter a st (Some kvs)))) =
        {k \<in> fst ` set kvs. fst (isSecretAllowed a st k)}
    \<and> set (deniedSecrets (bulkFilter a st (Some kvs))) =
        {k \<in> fst ` set kvs. \<not> fst (isSecretAllowed a st k)}"
proof -
  have al: "\<And>k. fst (isSecretAllowed a st k) = fst (isSecretAllowed a' st' k)"
    using assms(1) by (rule isSecretAllowed_same_scope)
  have s: "set kvs = set kvs'"
    using assms(2) by (rule mset_eq_setD)
  have "mset (map fst kvs) = mset (map fst kvs')"
    using assms(2) by simp
  then have d': "distinct (map fst kvs')"
    using assms(3) by (metis mset_eq_imp_distinct_iff)
  have m: "map_of kvs = map_of kvs'"
    using assms(3) d' s by (simp add: map_of_inject_set)
  have f: "map_of (filteredSecrets (bulkFilter a st (Some kvs))) =
           map_of (filteredSecrets (bulkFilter a' st' (Some kvs')))"
    by (rule ext) (simp add: bulkFilter_filtered [OF assms(3)] bulkFilter_filtered [OF d'] al m)
  have "BulkData (bulkResponse (filteredSecrets (bulkFilter a st (Some kvs)))) =
        BulkData (bulkResponse (filteredSecrets (bulkFilter a' st' (Some kvs'))))"
    by (rule ext) (simp add: bulkResponse_filter [OF assms(3)] bulkResponse_filter [OF d'] al m)
  then have r: "bulkResponse (filteredSecrets (bulkFilter a st (Some kvs))) =
        bulkResponse (filteredSecrets (bulkFilter a' st' (Some kvs')))"
    by simp
  have dn: "set (deniedSecrets (bulkFilter a st (Some kvs))) =
        set (deniedSecrets (bulkFilter a' st' (Some kvs')))"
    by (simp add: bulkFilter_denied rangeOver_def al s)
  have rs: "set (deniedSecretReasons (bulkFilter a st (Some kvs))) =
        set (deniedSecretReasons (bulkFilter a' st' (Some kvs')))"
    using assms(1)
    by (simp add: bulkFilter_def rangeOver_def bulkInit_def fold_bulkStep_reasons al s
        split: option.splits)
  have dm: "dom (map_of (filteredSecrets (bulkFilter a st (Some kvs)))) =
        {k \<in> fst ` set kvs. fst (isSecretAllowed a st k)}"
  proof -
    have "map_of (filteredSecrets (bulkFilter a st (Some kvs))) =
            (\<lambda>k. if fst (isSecretAllowed a st k) then map_of kvs k else None)"
      by (rule ext) (simp add: bulkFilter_filtered [OF assms(3)])
    then have "dom (map_of (filteredSecrets (bulkFilter a st (Some kvs)))) =
            {k \<in> dom (map_of kvs). fst (isSecretAllowed a st k)}"
      by (auto simp add: dom_def split: if_splits)
    then show ?thesis
      by (simp add: dom_map_of_conv_image_fst)
  qed
  have ds: "set (deniedSecrets (bulkFilter a st (Some kvs))) =
        {k \<in> fst ` set kvs. \<not> fst (isSecretAllowed a st k)}"
    by (auto simp add: bulkFilter_denied rangeOver_def)
  from f r dn rs dm ds show ?thesis by blast
qed

theorem bulk_filter_order_independent_witness:
  "mset bulkSecrets = mset (rev bulkSecrets)
   \<and> distinct (map fst bulkSecrets)
   \<and> bulkResponse (filteredSecrets (bulkFilter (apiWith (Some bulkSecrets) (Some denyKeyScope))
        ''test-store'' (Some bulkSecrets))) =
      bulkResponse (filteredSecrets (bulkFilter (apiWith (Some bulkSecrets) (Some denyKeyScope))
        ''test-store'' (Some (rev bulkSecrets))))
   \<and> set (deniedSecrets (bulkFilter (apiWith (Some bulkSecrets) (Some denyKeyScope))
        ''test-store'' (Some (rev bulkSecrets)))) = {''denied-key''}"
proof -
  let ?a = "apiWith (Some bulkSecrets) (Some denyKeyScope)"
  have h1: "GetSecretsConfiguration (compStore ?a) ''test-store'' =
            GetSecretsConfiguration (compStore ?a) ''test-store''"
    by simp
  have h2: "mset bulkSecrets = mset (rev bulkSecrets)"
    by simp
  have h3: "distinct (map fst bulkSecrets)"
    by (simp add: bulkSecrets_def)
  have d: "\<not> fst (isSecretAllowed ?a ''test-store'' ''denied-key'')"
    by (simp add: example_defs isSecretAllowed_def IsSecretAllowedWithReason_def)
  have al: "fst (isSecretAllowed ?a ''test-store'' ''allowed-key'')"
    by (simp add: example_defs isSecretAllowed_def IsSecretAllowedWithReason_def)
  have "{k \<in> fst ` set bulkSecrets. \<not> fst (isSecretAllowed ?a ''test-store'' k)}
          = {''denied-key''}"
    using d al by (auto simp add: bulkSecrets_def)
  with bulk_filter_order_independent [OF h1 h2 h3] h2 h3 show ?thesis
    by metis
qed

text \<open>
  Claim C9. The error of \<^verbatim>\<open>GetBulkSecret\<close>, when there is one, is
  \<open>ErrSecretStoreNotConfigured\<close>, \<open>ErrSecretStoreNotFound\<close> of the requested store or
  \<open>ErrBulkSecretGet\<close> of the requested store; it is never
  \<open>ErrSecretPermissionDenied\<close>. When the store resolves and the backend call returns no
  error, \<^verbatim>\<open>GetBulkSecret\<close> returns no error, whatever the evaluator denies.
\<close>

theorem GetBulkSecret_errors:
  "(case snd (fst (GetBulkSecret a inp)) of
      None \<Rightarrow> True
    | Some e \<Rightarrow> e = ErrSecretStoreNotConfigured \<or> e = ErrSecretStoreNotFound (BulkStoreName inp)
        \<or> (\<exists>m. e = ErrBulkSecretGet (BulkStoreName inp) m))
   \<and> (\<forall>k s. snd (fst (GetBulkSecret a inp)) \<noteq> Some (ErrSecretPermissionDenied k s))
   \<and> (GetSecretStore (compStore a) (BulkStoreName inp) = Some component \<and>
       snd (RunBulkGetSecret component \<lparr>BulkReqMetadata = BulkMetadata inp\<rparr>) = None \<longrightarrow>
       snd (fst (GetBulkSecret a inp)) = None)"
proof -
  have 1: "(case snd (fst (GetBulkSecret a inp)) of
      None \<Rightarrow> True
    | Some e \<Rightarrow> e = ErrSecretStoreNotConfigured \<or> e = ErrSecretStoreNotFound (BulkStoreName inp)
        \<or> (\<exists>m. e = ErrBulkSecretGet (BulkStoreName inp) m))"
    using secretsValidateRequest_cases [of a "BulkStoreName inp"]
    by (auto simp add: GetBulkSecret_def Let_def split: prod.splits sum.splits option.splits)
  then have 2: "\<forall>k s. snd (fst (GetBulkSecret a inp)) \<noteq> Some (ErrSecretPermissionDenied k s)"
    by (auto split: option.splits)
  have 3: "GetSecretStore (compStore a) (BulkStoreName inp) = Some component \<and>
       snd (RunBulkGetSecret component \<lparr>BulkReqMetadata = BulkMetadata inp\<rparr>) = None \<longrightarrow>
       snd (fst (GetBulkSecret a inp)) = None"
    by (auto simp add: GetBulkSecret_def secretsValidateRequest_resolved Let_def
        split: prod.splits option.splits)
  from 1 2 3 show ?thesis by blast
qed

theorem GetBulkSecret_errors_witness:
  "GetSecretStore (compStore (apiWith (Some bulkSecrets) (Some denyAllScope))) ''test-store''
     = Some (customSecretStore (Some bulkSecrets))
   \<and> snd (RunBulkGetSecret (customSecretStore (Some bulkSecrets))
            \<lparr>BulkReqMetadata = noMetadata\<rparr>) = None
   \<and> \<not> fst (isSecretAllowed (apiWith (Some bulkSecrets) (Some denyAllScope))
             ''test-store'' ''allowed-key'')
   \<and> snd (fst (GetBulkSecret (apiWith (Some bulkSecrets) (Some denyAllScope))
                 (bulkRequest ''test-store''))) = None"
proof -
  let ?a = "apiWith (Some bulkSecrets) (Some denyAllScope)"
  have h1: "GetSecretStore (compStore ?a) ''test-store''
              = Some (customSecretStore (Some bulkSecrets))"
    by (simp add: example_defs)
  have h2: "snd (RunBulkGetSecret (customSecretStore (Some bulkSecrets))
              \<lparr>BulkReqMetadata = noMetadata\<rparr>) = None"
    by (simp add: customSecretStore_def)
  have d: "\<not> fst (isSecretAllowed ?a ''test-store'' ''allowed-key'')"
    by (simp add: example_defs isSecretAllowed_def IsSecretAllowedWithReason_def)
  show ?thesis
    using h1 h2 d
      GetBulkSecret_errors [where a = ?a and inp = "bulkRequest ''test-store''"
        and component = "customSecretStore (Some bulkSecrets)"]
    by (simp add: bulkRequest_def)
qed

text \<open>
  Claim C10. Whenever \<^verbatim>\<open>GetSecret\<close> or \<^verbatim>\<open>GetBulkSecret\<close> returns an error, the
  response it returns with it is \<^verbatim>\<open>nil\<close>, for every gateway, request and outcome of
  the backend call.
\<close>

theorem error_implies_nil_response:
  "(snd (fst (GetSecret a inp)) \<noteq> None \<longrightarrow> fst (fst (GetSecret a inp)) = None)
   \<and> (snd (fst (GetBulkSecret a binp)) \<noteq> None \<longrightarrow> fst (fst (GetBulkSecret a binp)) = None)"
  by (auto simp add: GetSecret_def GetBulkSecret_def Let_def
      split: prod.splits sum.splits bool.splits option.splits)

theorem error_implies_nil_response_witness:
  "RunGetSecret (customSecretStore None) \<lparr>Name = ''error-key'', ReqMetadata = noMetadata\<rparr>
     = (Some \<lparr>StoreData = Map.empty\<rparr>, Some ''error'')
   \<and> fst (GetSecret (apiWith None None) (getRequest ''test-store'' ''error-key''))
       = (None, Some (ErrSecretGet ''error-key'' ''test-store'' ''error''))
   \<and> fst (GetBulkSecret emptyAPI (bulkRequest ''test-store''))
       = (None, Some ErrSecretStoreNotConfigured)"
proof -
  have g: "snd (fst (GetSecret (apiWith None None) (getRequest ''test-store'' ''error-key'')))
       = Some (ErrSecretGet ''error-key'' ''test-store'' ''error'')"
    by (simp add: eval_defs)
  have b: "snd (fst (GetBulkSecret emptyAPI (bulkRequest ''test-store'')))
       = Some ErrSecretStoreNotConfigured"
    by (simp add: eval_defs)
  have r: "RunGetSecret (customSecretStore None)
             \<lparr>Name = ''error-key'', ReqMetadata = noMetadata\<rparr>
     = (Some \<lparr>StoreData = Map.empty\<rparr>, Some ''error'')"
    by (simp add: customSecretStore_def)
  from error_implies_nil_response [where a = "apiWith None None"
      and inp = "getRequest ''test-store'' ''error-key''"]
    error_implies_nil_response [where a = emptyAPI and binp = "bulkRequest ''test-store''"]
    g b r
  show ?thesis
    by (simp add: prod_eq_iff)
qed

end
